theory Spec2Isabelle
  imports Main
begin

section \<open>Text\<close>

text \<open>
  The script \<^verbatim>\<open>scripts/demo.py\<close> only prints text. A Python \<^verbatim>\<open>str\<close> is modelled by the
  UTF-8 bytes that reach standard output, so \<^typ>\<open>string\<close> is a list of bytes and the
  pictographs of the source are the byte sequences below. All string operations the
  script applies (\<^verbatim>\<open>startswith\<close>, \<^verbatim>\<open>endswith\<close>, \<^verbatim>\<open>replace\<close>, \<^verbatim>\<open>count\<close>) are applied with ASCII
  arguments, for which bytes and code points agree.
\<close>

definition dquote :: char where
  "dquote = CHR 0x22"

definition squote :: char where
  "squote = CHR 0x27"

definition rocket :: string where
  "rocket = [CHR 0xF0, CHR 0x9F, CHR 0x9A, CHR 0x80]"

definition clipboard :: string where
  "clipboard = [CHR 0xF0, CHR 0x9F, CHR 0x93, CHR 0x8B]"

definition laptop :: string where
  "laptop = [CHR 0xF0, CHR 0x9F, CHR 0x92, CHR 0xBB]"

definition cross_mark :: string where
  "cross_mark = [CHR 0xE2, CHR 0x9D, CHR 0x8C]"

definition wrench :: string where
  "wrench = [CHR 0xF0, CHR 0x9F, CHR 0x94, CHR 0xA7]"

definition folder :: string where
  "folder = [CHR 0xF0, CHR 0x9F, CHR 0x93, CHR 0x81]"

definition crane :: string where
  "crane = [CHR 0xF0, CHR 0x9F, CHR 0x8F, CHR 0x97, CHR 0xEF, CHR 0xB8, CHR 0x8F]"

definition dart :: string where
  "dart = [CHR 0xF0, CHR 0x9F, CHR 0x8E, CHR 0xAF]"

definition check_mark :: string where
  "check_mark = [CHR 0xE2, CHR 0x9C, CHR 0x85]"

definition bar_chart :: string where
  "bar_chart = [CHR 0xF0, CHR 0x9F, CHR 0x93, CHR 0x8A]"

definition globe :: string where
  "globe = [CHR 0xF0, CHR 0x9F, CHR 0x8C, CHR 0x90]"

definition link_sym :: string where
  "link_sym = [CHR 0xF0, CHR 0x9F, CHR 0x94, CHR 0x97]"

definition shield :: string where
  "shield = [CHR 0xF0, CHR 0x9F, CHR 0x9B, CHR 0xA1, CHR 0xEF, CHR 0xB8, CHR 0x8F]"

definition scales :: string where
  "scales = [CHR 0xE2, CHR 0x9A, CHR 0x96, CHR 0xEF, CHR 0xB8, CHR 0x8F]"

definition plug :: string where
  "plug = [CHR 0xF0, CHR 0x9F, CHR 0x94, CHR 0x8C]"

definition phone :: string where
  "phone = [CHR 0xF0, CHR 0x9F, CHR 0x93, CHR 0xB1]"

definition palette :: string where
  "palette = [CHR 0xF0, CHR 0x9F, CHR 0x8E, CHR 0xA8]"

definition trophy :: string where
  "trophy = [CHR 0xF0, CHR 0x9F, CHR 0x8F, CHR 0x86]"

definition party :: string where
  "party = [CHR 0xF0, CHR 0x9F, CHR 0x8E, CHR 0x89]"

definition bulb :: string where
  "bulb = [CHR 0xF0, CHR 0x9F, CHR 0x92, CHR 0xA1]"

text \<open>\<^verbatim>\<open>s.startswith(p)\<close> and \<^verbatim>\<open>s.endswith(x)\<close>; the latter also takes a tuple of suffixes.\<close>

definition startswith :: "string \<Rightarrow> string \<Rightarrow> bool" where
  "startswith s p = (take (length p) s = p)"

definition endswith :: "string \<Rightarrow> string \<Rightarrow> bool" where
  "endswith s x = (length x \<le> length s \<and> drop (length s - length x) s = x)"

fun endswith_any :: "string \<Rightarrow> string list \<Rightarrow> bool" where
  "endswith_any s [] = False"
| "endswith_any s (x # xs) = (endswith s x \<or> endswith_any s xs)"

text \<open>\<^verbatim>\<open>s.replace(c, "")\<close> and \<^verbatim>\<open>s.count(c)\<close> for a one-character \<^verbatim>\<open>c\<close>.\<close>

definition replace_with_empty :: "string \<Rightarrow> char \<Rightarrow> string" where
  "replace_with_empty s c = filter (\<lambda>x. x \<noteq> c) s"

definition count_str :: "string \<Rightarrow> char \<Rightarrow> nat" where
  "count_str s c = length (filter (\<lambda>x. x = c) s)"

text \<open>
  \<^verbatim>\<open>f"{i:2d}"\<close>: the decimal digits of \<^verbatim>\<open>i\<close>, padded on the left with blanks to width 2.
\<close>

fun decimal :: "nat \<Rightarrow> string" where
  "decimal n = (if n < 10 then [''0123456789'' ! n]
                else decimal (n div 10) @ [''0123456789'' ! (n mod 10)])"

declare decimal.simps [simp del]

definition format_2d :: "nat \<Rightarrow> string" where
  "format_2d i = (let s = decimal i in replicate (2 - length s) CHR '' '' @ s)"

text \<open>\<^verbatim>\<open>enumerate(xs, 1)\<close>.\<close>

definition enumerate1 :: "'a list \<Rightarrow> (nat \<times> 'a) list" where
  "enumerate1 xs = zip [1..<Suc (length xs)] xs"

section \<open>The file system seen by the script\<close>

text \<open>
  The paths are POSIX paths: \<^verbatim>\<open>os.sep\<close> is the slash. \<^verbatim>\<open>os.path.basename\<close> is the
  part after the last separator, and \<^verbatim>\<open>os.path.join\<close> is the two-argument case of
  \<^verbatim>\<open>posixpath.join\<close>.
\<close>

definition os_sep :: char where
  "os_sep = CHR ''/''"

definition basename :: "string \<Rightarrow> string" where
  "basename p = rev (takeWhile (\<lambda>c. c \<noteq> os_sep) (rev p))"

definition path_join :: "string \<Rightarrow> string \<Rightarrow> string" where
  "path_join a b =
     (if startswith b [os_sep] then b
      else if a = [] \<or> endswith a [os_sep] then a @ b
      else a @ [os_sep] @ b)"

text \<open>
  A directory has a name, the names of its non-directory entries in the order the
  operating system enumerates them, and its subdirectories in that order. The
  subdirectories are the ones a walk enters: real directories that can be read.
\<close>

datatype dir = Dir (dir_name: string) (dir_files: "string list") (dir_subdirs: "dir list")

text \<open>
  \<^verbatim>\<open>os.walk(top)\<close> with its default arguments: top-down, every directory yields the triple
  (path, names of subdirectories, names of files) and then its subdirectories are walked
  in order. The script never changes the list of subdirectories it is handed, so nothing
  is pruned. The name of the top directory itself is not used: the walk starts at the
  path it is given.
\<close>

fun os_walk :: "string \<Rightarrow> dir \<Rightarrow> (string \<times> string list \<times> string list) list" where
  "os_walk root (Dir n fs ds) =
     (root, map dir_name ds, fs) # concat (map (\<lambda>d. os_walk (path_join root (dir_name d)) d) ds)"

section \<open>Strings that a caller hands in\<close>

text \<open>
  The arguments of \<^verbatim>\<open>run_command\<close> and the message of an exception are arbitrary Python
  strings: lists of code points (below \<^verbatim>\<open>0x110000\<close>), which may hold lone surrogates.
  Standard output encodes what it is given as UTF-8 with the strict error handler, so a
  string with a surrogate cannot be written: \<^verbatim>\<open>print\<close> raises \<^verbatim>\<open>UnicodeEncodeError\<close>, a
  subclass of \<^verbatim>\<open>Exception\<close>, and writes nothing.
\<close>

type_synonym pystr = "nat list"

text \<open>The code points of ASCII text.\<close>

definition code_points :: "string \<Rightarrow> pystr" where
  "code_points s = map of_char s"

definition surrogate :: "nat \<Rightarrow> bool" where
  "surrogate c = (0xD800 \<le> c \<and> c \<le> 0xDFFF)"

definition encodable :: "pystr \<Rightarrow> bool" where
  "encodable s = (filter surrogate s = [])"

text \<open>The UTF-8 bytes of one code point that is not a surrogate, and of a string.\<close>

definition utf8_char :: "nat \<Rightarrow> string" where
  "utf8_char c =
     (if c < 0x80 then [char_of c]
      else if c < 0x800 then [char_of (0xC0 + c div 0x40), char_of (0x80 + c mod 0x40)]
      else if c < 0x10000
        then [char_of (0xE0 + c div 0x1000), char_of (0x80 + c div 0x40 mod 0x40),
              char_of (0x80 + c mod 0x40)]
      else [char_of (0xF0 + c div 0x40000), char_of (0x80 + c div 0x1000 mod 0x40),
            char_of (0x80 + c div 0x40 mod 0x40), char_of (0x80 + c mod 0x40)])"

definition utf8 :: "pystr \<Rightarrow> string" where
  "utf8 s = concat (map utf8_char s)"

text \<open>
  An exception of class \<^verbatim>\<open>Exception\<close> carries the text that \<^verbatim>\<open>str(e)\<close> gives. These are the
  exceptions an \<^verbatim>\<open>except Exception\<close> clause catches; interrupts of the interpreter are not
  part of the model.
\<close>

datatype exn = Exception pystr

text \<open>
  The \<^verbatim>\<open>UnicodeEncodeError\<close> of the encoder, with the message of the interpreter: it names
  the first run of surrogates, by its code point when the run has length one and by its
  first and last position otherwise.
\<close>

definition hex4 :: "nat \<Rightarrow> string" where
  "hex4 c =
     [''0123456789abcdef'' ! (c div 0x1000 mod 0x10), ''0123456789abcdef'' ! (c div 0x100 mod 0x10),
      ''0123456789abcdef'' ! (c div 0x10 mod 0x10), ''0123456789abcdef'' ! (c mod 0x10)]"

definition encode_error :: "pystr \<Rightarrow> exn" where
  "encode_error s =
     (let start = length (takeWhile (\<lambda>c. \<not> surrogate c) s);
          run = takeWhile surrogate (drop start s)
      in Exception (code_points
           ([squote] @ ''utf-8'' @ [squote] @ '' codec can'' @ [squote] @ ''t encode ''
            @ (if length run = 1
               then ''character '' @ [squote, CHR 0x5C] @ ''u'' @ hex4 (s ! start) @ [squote]
                    @ '' in position '' @ decimal start
               else ''characters in position '' @ decimal start @ ''-''
                    @ decimal (start + length run - 1))
            @ '': surrogates not allowed'')))"

definition utf8_encode :: "pystr \<Rightarrow> exn + string" where
  "utf8_encode s = (if encodable s then Inr (utf8 s) else Inl (encode_error s))"

section \<open>Environment, state and outcomes\<close>

text \<open>
  What a child process hands back to \<^verbatim>\<open>subprocess.run\<close> (\<^verbatim>\<open>CompletedProcess\<close>). With
  \<^verbatim>\<open>text=True\<close> the captured streams are decoded with the strict error handler, so they hold
  no surrogate; they are kept as their UTF-8 bytes, which is what printing them writes.
\<close>

record completed_process =
  returncode :: int
  proc_stdout :: string
  proc_stderr :: string

text \<open>
  The environment is what the script can read and does not change: the argument vector,
  which paths exist (\<^verbatim>\<open>os.path.exists\<close>), the working directory, and what
  \<^verbatim>\<open>subprocess.run(cmd, shell=True, capture_output=True, text=True)\<close> does for each command:
  raise or complete.
\<close>

record env =
  argv :: "string list"
  path_exists :: "string \<Rightarrow> bool"
  cwd :: dir
  subprocess_run :: "pystr \<Rightarrow> exn + completed_process"

text \<open>
  The state is what the script changes: standard output, one entry per call of \<^verbatim>\<open>print\<close>
  (each is followed by a newline on the stream), and the commands handed to
  \<^verbatim>\<open>subprocess.run\<close> so far. Writing bytes to standard output always succeeds.
\<close>

record state =
  stdout :: "string list"
  subprocess_calls :: "pystr list"

definition stdout_bytes :: "state \<Rightarrow> string" where
  "stdout_bytes \<sigma> = concat (map (\<lambda>l. l @ [CHR 0x0A]) (stdout \<sigma>))"

definition print :: "string \<Rightarrow> state \<Rightarrow> state" where
  "print s \<sigma> = \<sigma>\<lparr>stdout := stdout \<sigma> @ [s]\<rparr>"

text \<open>A call either returns or raises; both leave a state behind.\<close>

datatype outcome = Returned state | Raised exn state

fun final :: "outcome \<Rightarrow> state" where
  "final (Returned \<sigma>) = \<sigma>"
| "final (Raised x \<sigma>) = \<sigma>"

text \<open>
  \<^verbatim>\<open>print(s)\<close> for a string handed in by a caller: the string is encoded first, and the
  call raises without writing when that fails. A statement after a call that raised is
  not run.
\<close>

definition py_print :: "pystr \<Rightarrow> state \<Rightarrow> outcome" where
  "py_print s \<sigma> =
     (case utf8_encode s of Inl x \<Rightarrow> Raised x \<sigma> | Inr bytes \<Rightarrow> Returned (print bytes \<sigma>))"

fun and_then :: "outcome \<Rightarrow> (state \<Rightarrow> outcome) \<Rightarrow> outcome" where
  "and_then (Returned \<sigma>) rest = rest \<sigma>"
| "and_then (Raised x \<sigma>) rest = Raised x \<sigma>"

text \<open>\<^verbatim>\<open>try: ... except Exception as e: ...\<close>\<close>

fun try_except :: "outcome \<Rightarrow> (exn \<Rightarrow> state \<Rightarrow> outcome) \<Rightarrow> outcome" where
  "try_except (Returned \<sigma>) handler = Returned \<sigma>"
| "try_except (Raised x \<sigma>) handler = handler x \<sigma>"

section \<open>The script\<close>

definition print_banner :: "state \<Rightarrow> state" where
  "print_banner \<sigma>0 =
     (let \<sigma>1 = print (replicate 60 CHR ''='') \<sigma>0;
          \<sigma>2 = print (rocket @ '' RUST + FOUNDRY POLLING SYSTEM DEMO'') \<sigma>1;
          \<sigma>3 = print (replicate 60 CHR ''='') \<sigma>2
      in print [] \<sigma>3)"

text \<open>
  \<^verbatim>\<open>run_command\<close>: the three prints, then the \<^verbatim>\<open>try\<close> block around \<^verbatim>\<open>subprocess.run\<close> and
  the prints of the captured streams, then the handler. The prints of the description
  and of the command stand before the \<^verbatim>\<open>try\<close>, so an exception they raise reaches the
  caller; the print of the message stands in the handler, so an exception it raises
  reaches the caller too.
\<close>

definition run_command_try :: "env \<Rightarrow> pystr \<Rightarrow> state \<Rightarrow> outcome" where
  "run_command_try e cmd \<sigma>0 =
     (let \<sigma>1 = \<sigma>0\<lparr>subprocess_calls := subprocess_calls \<sigma>0 @ [cmd]\<rparr> in
      case subprocess_run e cmd of
        Inl x \<Rightarrow> Raised x \<sigma>1
      | Inr result \<Rightarrow>
          (let \<sigma>2 = (if proc_stdout result \<noteq> [] then print (proc_stdout result) \<sigma>1 else \<sigma>1);
               \<sigma>3 = (if proc_stderr result \<noteq> []
                     then print (''STDERR:'' @ '' '' @ proc_stderr result) \<sigma>2 else \<sigma>2)
           in Returned (print [] \<sigma>3)))"

definition run_command_except :: "exn \<Rightarrow> state \<Rightarrow> outcome" where
  "run_command_except x \<sigma>0 =
     (case x of Exception msg \<Rightarrow>
        and_then (py_print (code_points ''Error running command: '' @ msg) \<sigma>0)
          (\<lambda>\<sigma>1. Returned (print [] \<sigma>1)))"

definition run_command :: "env \<Rightarrow> pystr \<Rightarrow> pystr \<Rightarrow> state \<Rightarrow> outcome" where
  "run_command e cmd description \<sigma>0 =
     and_then (py_print (0x1F4CB # code_points '' '' @ description) \<sigma>0)
       (\<lambda>\<sigma>1. and_then (py_print (0x1F4BB # code_points '' Command: '' @ cmd) \<sigma>1)
         (\<lambda>\<sigma>2. let \<sigma>3 = print (replicate 40 CHR ''-'') \<sigma>2
               in try_except (run_command_try e cmd \<sigma>3) run_command_except))"

text \<open>The literal lists of \<^verbatim>\<open>main\<close>.\<close>

definition commands :: "(string \<times> string) list" where
  "commands =
    [(''cargo check'',
      ''Validate Rust code compilation''),
     (''cargo build --release'',
      ''Build optimized binary''),
     (''cargo run -- --help'',
      ''Show CLI help''),
     (''cd Counter && forge build'',
      ''Compile smart contracts''),
     (''cd Counter && forge test'',
      ''Run smart contract tests''),
     (''cd Counter && anvil'',
      ''Start local blockchain (background)''),
     (''cd Counter && forge script script/DecentralizedPolls.s.sol'',
      ''Deploy contracts'')]"

definition features :: "string list" where
  "features =
    [check_mark @ '' Colored CLI output with progress indicators'',
     check_mark @ '' Data export in JSON, CSV, and Table formats'',
     check_mark @ '' Advanced poll analytics with visual bars'',
     check_mark @ '' Comprehensive error handling'',
     check_mark @ '' Time-based poll management'',
     check_mark @ '' User activity tracking'',
     check_mark @ '' Multi-format result visualization'',
     check_mark @ '' Professional CLI experience'']"

definition example_commands :: "string list" where
  "example_commands =
    [''cargo run -- create -q '' @ [dquote] @ ''What'' @ [squote] @ ''s your favorite blockchain?'' @ [dquote] @ '' -o '' @ [dquote] @ ''Ethereum,Bitcoin,Solana'' @ [dquote] @ '' -d 7'',
     ''cargo run -- list'',
     ''cargo run -- vote -p 0 -o 1'',
     ''cargo run -- view -p 0'',
     ''cargo run -- results -p 0'',
     ''cargo run -- analytics -p 0'',
     ''cargo run -- export -p 0 -f json -o poll_data.json'',
     ''cargo run -- export -p 0 -f csv'',
     ''cargo run -- my-polls'',
     ''cargo run -- my-votes'']"

definition workflow :: "string list" where
  "workflow =
    [''1. Start local blockchain: cd Counter && anvil'',
     ''2. Deploy contracts: cd Counter && forge script script/DecentralizedPolls.s.sol --rpc-url http://localhost:8545 --private-key 0xac0974bec39a17e36ba4a6b4d238ff944bacb478cbed5efcae784d7bf4f2ff80 --broadcast'',
     ''3. Set environment variables:'',
     ''   export CONTRACT_ADDRESS=<deployed_address>'',
     ''   export RPC_URL=http://localhost:8545'',
     ''4. Use the enhanced CLI with all new features!'']"

definition next_phases :: "string list" where
  "next_phases =
    [globe @ '' Web Frontend (React/Next.js)'',
     link_sym @ '' Multi-chain Support (Polygon, Arbitrum)'',
     shield @ ''  Security Enhancements & Anti-spam'',
     scales @ ''  Weighted & Stake-based Voting'',
     plug @ '' REST API for External Integrations'',
     phone @ '' Mobile App Support'',
     palette @ '' Advanced Data Visualizations'',
     trophy @ '' Reputation & Governance System'']"

text \<open>
  The body of the loop over \<^verbatim>\<open>os.walk(".")\<close>: the line of the directory, then the loop
  over \<^verbatim>\<open>files[:3]\<close> with its test.
\<close>

definition allowed_suffixes :: "string list" where
  "allowed_suffixes = [''.rs'', ''.sol'', ''.toml'', ''.json'']"

definition file_test :: "string \<Rightarrow> bool" where
  "file_test file = (\<not> startswith file ''.'' \<and> endswith_any file allowed_suffixes)"

fun files_loop :: "string \<Rightarrow> string list \<Rightarrow> state \<Rightarrow> state" where
  "files_loop subindent [] \<sigma> = \<sigma>"
| "files_loop subindent (file # rest) \<sigma> =
     files_loop subindent rest (if file_test file then print (subindent @ file) \<sigma> else \<sigma>)"

definition walk_body :: "string \<times> string list \<times> string list \<Rightarrow> state \<Rightarrow> state" where
  "walk_body triple \<sigma>0 =
     (case triple of (root, dirs, files) \<Rightarrow>
        (let level = count_str (replace_with_empty root CHR ''.'') os_sep;
             indent = replicate (2 * level) CHR '' '';
             \<sigma>1 = print (indent @ basename root @ ''/'') \<sigma>0;
             subindent = replicate (2 * (level + 1)) CHR '' ''
         in files_loop subindent (take 3 files) \<sigma>1))"

text \<open>The bodies of the five loops over the literal lists.\<close>

definition commands_body :: "string \<times> string \<Rightarrow> state \<Rightarrow> state" where
  "commands_body pair \<sigma>0 =
     (case pair of (cmd, desc) \<Rightarrow>
        (let \<sigma>1 = print (clipboard @ '' '' @ desc) \<sigma>0;
             \<sigma>2 = print (laptop @ '' '' @ cmd) \<sigma>1
         in print [] \<sigma>2))"

definition features_body :: "string \<Rightarrow> state \<Rightarrow> state" where
  "features_body feature \<sigma> = print (''  '' @ feature) \<sigma>"

definition examples_body :: "nat \<times> string \<Rightarrow> state \<Rightarrow> state" where
  "examples_body pair \<sigma> = (case pair of (i, cmd) \<Rightarrow> print (format_2d i @ ''. '' @ cmd) \<sigma>)"

definition workflow_body :: "string \<Rightarrow> state \<Rightarrow> state" where
  "workflow_body step \<sigma> = print (''  '' @ step) \<sigma>"

definition phases_body :: "string \<Rightarrow> state \<Rightarrow> state" where
  "phases_body phase \<sigma> = print (''  '' @ phase) \<sigma>"

text \<open>
  \<^verbatim>\<open>main\<close>, statement by statement. The sections after the directory listing are the
  part of \<^verbatim>\<open>main\<close> from the build and test heading to the closing rule.
\<close>

definition main_static :: "state \<Rightarrow> state" where
  "main_static \<sigma>0 =
     (let \<sigma>1 = print (crane @ ''  BUILD & TEST COMMANDS'') \<sigma>0;
          \<sigma>2 = print (replicate 25 CHR ''-'') \<sigma>1;
          \<sigma>3 = fold commands_body commands \<sigma>2;
          \<sigma>4 = print (dart @ '' ENHANCED FEATURES ADDED'') \<sigma>3;
          \<sigma>5 = print (replicate 28 CHR ''-'') \<sigma>4;
          \<sigma>6 = fold features_body features \<sigma>5;
          \<sigma>7 = print [] \<sigma>6;
          \<sigma>8 = print (rocket @ '' EXAMPLE USAGE'') \<sigma>7;
          \<sigma>9 = print (replicate 15 CHR ''-'') \<sigma>8;
          \<sigma>10 = fold examples_body (enumerate1 example_commands) \<sigma>9;
          \<sigma>11 = print [] \<sigma>10;
          \<sigma>12 = print (wrench @ '' DEVELOPMENT WORKFLOW'') \<sigma>11;
          \<sigma>13 = print (replicate 23 CHR ''-'') \<sigma>12;
          \<sigma>14 = fold workflow_body workflow \<sigma>13;
          \<sigma>15 = print [] \<sigma>14;
          \<sigma>16 = print (bar_chart @ '' NEXT DEVELOPMENT PHASES'') \<sigma>15;
          \<sigma>17 = print (replicate 27 CHR ''-'') \<sigma>16;
          \<sigma>18 = fold phases_body next_phases \<sigma>17;
          \<sigma>19 = print [] \<sigma>18;
          \<sigma>20 = print (replicate 60 CHR ''='') \<sigma>19;
          \<sigma>21 = print (party @ '' Your Rust + Foundry polling system is ready for development!'') \<sigma>20;
          \<sigma>22 = print (bulb @ '' Run any of the commands above to get started.'') \<sigma>21
      in print (replicate 60 CHR ''='') \<sigma>22)"

definition main :: "env \<Rightarrow> state \<Rightarrow> outcome" where
  "main e \<sigma>0 =
     (let \<sigma>1 = print_banner \<sigma>0 in
      if \<not> path_exists e ''Cargo.toml''
      then Returned (print (cross_mark @ '' Please run this script from the project root directory!'') \<sigma>1)
      else
        (let \<sigma>2 = print (wrench @ '' PROJECT ANALYSIS'') \<sigma>1;
             \<sigma>3 = print (replicate 20 CHR ''-'') \<sigma>2;
             \<sigma>4 = print (folder @ '' Project Structure:'') \<sigma>3;
             \<sigma>5 = fold walk_body (os_walk ''.'' (cwd e)) \<sigma>4;
             \<sigma>6 = print [] \<sigma>5
         in Returned (main_static \<sigma>6)))"

text \<open>
  The module level: \<^verbatim>\<open>main()\<close> is the last statement, so the interpreter leaves with
  status 0 when it returns and with status 1 when an exception escapes it.
\<close>

definition script :: "env \<Rightarrow> state \<Rightarrow> int \<times> state" where
  "script e \<sigma> = (case main e \<sigma> of Returned \<sigma>' \<Rightarrow> (0, \<sigma>') | Raised x \<sigma>' \<Rightarrow> (1, \<sigma>'))"

section \<open>What the script prints, as lists of lines\<close>

text \<open>
  The functions of this section describe the output without a state: the lines of the
  banner, the lines one directory contributes to the listing, the listing as an indented
  tree, and the lines of the sections that follow it. The theorems relate them to
  \<^const>\<open>main\<close>.
\<close>

definition banner_lines :: "string list" where
  "banner_lines =
     [replicate 60 CHR ''='', rocket @ '' RUST + FOUNDRY POLLING SYSTEM DEMO'',
      replicate 60 CHR ''='', []]"

definition error_line :: string where
  "error_line = cross_mark @ '' Please run this script from the project root directory!''"

definition analysis_lines :: "string list" where
  "analysis_lines =
     [wrench @ '' PROJECT ANALYSIS'', replicate 20 CHR ''-'', folder @ '' Project Structure:'']"

definition level_of :: "string \<Rightarrow> nat" where
  "level_of root = count_str (replace_with_empty root CHR ''.'') os_sep"

definition spaces :: "nat \<Rightarrow> string" where
  "spaces k = replicate k CHR '' ''"

definition shown_files :: "string list \<Rightarrow> string list" where
  "shown_files fs = filter file_test (take 3 fs)"

definition dir_lines :: "string \<times> string list \<times> string list \<Rightarrow> string list" where
  "dir_lines triple =
     (case triple of (root, ds, fs) \<Rightarrow>
        (spaces (2 * level_of root) @ basename root @ ''/'')
        # map (\<lambda>f. spaces (2 * (level_of root + 1)) @ f) (shown_files fs))"

definition listing_lines :: "dir \<Rightarrow> string list" where
  "listing_lines d = concat (map dir_lines (os_walk ''.'' d))"





definition static_lines :: "string list" where
  "static_lines =
     [crane @ ''  BUILD & TEST COMMANDS'', replicate 25 CHR ''-'']
     @ concat (map (\<lambda>(cmd, desc). [clipboard @ '' '' @ desc, laptop @ '' '' @ cmd, []]) commands)
     @ [dart @ '' ENHANCED FEATURES ADDED'', replicate 28 CHR ''-'']
     @ map (\<lambda>feature. ''  '' @ feature) features
     @ [[], rocket @ '' EXAMPLE USAGE'', replicate 15 CHR ''-'']
     @ map (\<lambda>(i, cmd). format_2d i @ ''. '' @ cmd) (enumerate1 example_commands)
     @ [[], wrench @ '' DEVELOPMENT WORKFLOW'', replicate 23 CHR ''-'']
     @ map (\<lambda>step. ''  '' @ step) workflow
     @ [[], bar_chart @ '' NEXT DEVELOPMENT PHASES'', replicate 27 CHR ''-'']
     @ map (\<lambda>phase. ''  '' @ phase) next_phases
     @ [[], replicate 60 CHR ''='',
        party @ '' Your Rust + Foundry polling system is ready for development!'',
        bulb @ '' Run any of the commands above to get started.'',
        replicate 60 CHR ''='']"


text \<open>
  The extension of a file name in the sense of \<^verbatim>\<open>os.path.splitext\<close>, for a name without
  separators: it starts at the last dot, provided a character other than a dot comes
  before that dot, and is empty otherwise. The script does not call it; it says what
  the word extension means for the names the listing shows.
\<close>

definition extension_of :: "string \<Rightarrow> string" where
  "extension_of p =
     (let suf = takeWhile (\<lambda>c. c \<noteq> CHR ''.'') (rev p);
          stem = take (length p - length suf - 1) p
      in if length suf < length p \<and> filter (\<lambda>c. c \<noteq> CHR ''.'') stem \<noteq> []
         then CHR ''.'' # rev suf else [])"

text \<open>Text whose code points are its bytes.\<close>

definition is_ascii :: "string \<Rightarrow> bool" where
  "is_ascii s = list_all (\<lambda>c. (of_char c :: nat) < 0x80) s"

text \<open>Concrete environments and states for the examples.\<close>

definition empty_state :: state where
  "empty_state = \<lparr>stdout = [], subprocess_calls = []\<rparr>"

definition failing_shell :: "pystr \<Rightarrow> exn + completed_process" where
  "failing_shell cmd = Inl (Exception (code_points ''boom''))"

definition lone_surrogate :: pystr where
  "lone_surrogate = [0xDC80]"

definition env_no_marker :: env where
  "env_no_marker =
     \<lparr>argv = [''scripts/demo.py''], path_exists = (\<lambda>p. False),
      cwd = Dir ''tmp'' [''notes.txt''] [], subprocess_run = failing_shell\<rparr>"

definition env_project :: env where
  "env_project =
     \<lparr>argv = [''scripts/demo.py''], path_exists = (\<lambda>p. p = ''Cargo.toml''),
      cwd = Dir ''proj'' [''Cargo.toml'', ''.gitignore'', ''README.md'', ''x.json'']
              [Dir ''src'' [''.env'', ''a.rs'', ''b.rs'', ''c.rs'', ''d.rs''] [],
               Dir ''.git'' [''config''] [Dir ''hooks'' [] []]],
      subprocess_run = failing_shell\<rparr>"

definition env_four_rs :: env where
  "env_four_rs =
     \<lparr>argv = [''scripts/demo.py''], path_exists = (\<lambda>p. p = ''Cargo.toml''),
      cwd = Dir ''proj'' [''Cargo.toml'']
              [Dir ''src'' [''a.rs'', ''b.rs'', ''c.rs'', ''d.rs''] []],
      subprocess_run = failing_shell\<rparr>"


section \<open>Printing only appends to standard output\<close>

lemma print_eq: "print s \<sigma> = \<sigma>\<lparr>stdout := stdout \<sigma> @ [s]\<rparr>"
  by (simp add: print_def)

lemma files_loop_eq:
  "files_loop sub fs \<sigma> = \<sigma>\<lparr>stdout := stdout \<sigma> @ map (\<lambda>f. sub @ f) (filter file_test fs)\<rparr>"
  by (induction fs arbitrary: \<sigma>) (simp_all add: print_eq)

lemma walk_body_eq: "walk_body t \<sigma> = \<sigma>\<lparr>stdout := stdout \<sigma> @ dir_lines t\<rparr>"
  by (cases t) (simp add: walk_body_def dir_lines_def level_of_def spaces_def shown_files_def
      files_loop_eq print_eq Let_def)

lemma fold_lines:
  assumes "\<And>x \<sigma>. body x \<sigma> = \<sigma>\<lparr>stdout := stdout \<sigma> @ ls x\<rparr>"
  shows "fold body xs \<sigma> = \<sigma>\<lparr>stdout := stdout \<sigma> @ concat (map ls xs)\<rparr>"
  by (induction xs arbitrary: \<sigma>) (simp_all add: assms)

lemma fold_walk_body:
  "fold walk_body ts \<sigma> = \<sigma>\<lparr>stdout := stdout \<sigma> @ concat (map dir_lines ts)\<rparr>"
  by (rule fold_lines) (rule walk_body_eq)

lemma fold_commands_body:
  "fold commands_body xs \<sigma> =
     \<sigma>\<lparr>stdout := stdout \<sigma>
        @ concat (map (\<lambda>(cmd, desc). [clipboard @ '' '' @ desc, laptop @ '' '' @ cmd, []]) xs)\<rparr>"
  by (rule fold_lines) (simp add: commands_body_def print_eq split: prod.split)

lemma concat_singletons: "concat (map (\<lambda>x. [g x]) xs) = map g xs"
  by (induction xs) simp_all

lemma fold_features_body:
  "fold features_body xs \<sigma> = \<sigma>\<lparr>stdout := stdout \<sigma> @ map (\<lambda>feature. ''  '' @ feature) xs\<rparr>"
  using fold_lines [of features_body "\<lambda>x. [''  '' @ x]" xs \<sigma>]
  by (simp add: features_body_def print_eq concat_singletons)

lemma fold_workflow_body:
  "fold workflow_body xs \<sigma> = \<sigma>\<lparr>stdout := stdout \<sigma> @ map (\<lambda>step. ''  '' @ step) xs\<rparr>"
  using fold_lines [of workflow_body "\<lambda>x. [''  '' @ x]" xs \<sigma>]
  by (simp add: workflow_body_def print_eq concat_singletons)

lemma fold_phases_body:
  "fold phases_body xs \<sigma> = \<sigma>\<lparr>stdout := stdout \<sigma> @ map (\<lambda>phase. ''  '' @ phase) xs\<rparr>"
  using fold_lines [of phases_body "\<lambda>x. [''  '' @ x]" xs \<sigma>]
  by (simp add: phases_body_def print_eq concat_singletons)

lemma fold_examples_body:
  "fold examples_body xs \<sigma> =
     \<sigma>\<lparr>stdout := stdout \<sigma> @ map (\<lambda>(i, cmd). format_2d i @ ''. '' @ cmd) xs\<rparr>"
  using fold_lines [of examples_body "\<lambda>x. [case x of (i, cmd) \<Rightarrow> format_2d i @ ''. '' @ cmd]" xs \<sigma>]
  by (simp add: examples_body_def print_eq concat_singletons split: prod.split)

lemma print_banner_eq: "print_banner \<sigma> = \<sigma>\<lparr>stdout := stdout \<sigma> @ banner_lines\<rparr>"
  by (simp add: print_banner_def banner_lines_def print_eq Let_def)

lemma main_static_eq: "main_static \<sigma> = \<sigma>\<lparr>stdout := stdout \<sigma> @ static_lines\<rparr>"
  by (simp add: main_static_def static_lines_def Let_def print_eq fold_commands_body
      fold_features_body fold_examples_body fold_workflow_body fold_phases_body)

text \<open>The two paths of \<^const>\<open>main\<close>.\<close>

lemma main_absent:
  "\<not> path_exists e ''Cargo.toml'' \<Longrightarrow>
   main e \<sigma> = Returned (\<sigma>\<lparr>stdout := stdout \<sigma> @ banner_lines @ [error_line]\<rparr>)"
  by (simp add: main_def Let_def print_banner_eq print_eq error_line_def)

lemma main_present:
  "path_exists e ''Cargo.toml'' \<Longrightarrow>
   main e \<sigma> = Returned (\<sigma>\<lparr>stdout := stdout \<sigma> @ banner_lines @ analysis_lines
                              @ listing_lines (cwd e) @ [[]] @ static_lines\<rparr>)"
  by (simp add: main_def Let_def print_banner_eq print_eq analysis_lines_def listing_lines_def
      fold_walk_body main_static_eq)

lemma main_returns: "\<exists>\<sigma>'. main e \<sigma> = Returned \<sigma>'"
  by (cases "path_exists e ''Cargo.toml''") (simp_all add: main_absent main_present)

section \<open>Paths built by the walk\<close>







section \<open>The listing is the indented tree\<close>






section \<open>The files shown for one directory\<close>

lemma shown_files_length: "length (shown_files fs) \<le> 3"
  using length_filter_le [of file_test "take 3 fs"] by (simp add: shown_files_def)

lemma shown_files_member:
  assumes "f \<in> set (shown_files fs)"
  shows "f \<in> set fs" "\<not> startswith f ''.''" "endswith_any f allowed_suffixes"
  using assms set_take_subset [of 3 fs] by (auto simp: shown_files_def file_test_def)

lemma extension_of_suffix:
  assumes "\<not> startswith f ''.''" "endswith f (CHR ''.'' # s)" "CHR ''.'' \<notin> set s"
  shows "extension_of f = CHR ''.'' # s"
proof -
  define pre where "pre = take (length f - length (CHR ''.'' # s)) f"
  from assms(2) have f: "f = pre @ CHR ''.'' # s"
    unfolding pre_def endswith_def by (metis append_take_drop_id)
  from assms(1) f have pre: "pre \<noteq> []" "hd pre \<noteq> CHR ''.''"
    by (cases pre; simp add: startswith_def)+
  have "\<And>c. c \<in> set (rev s) \<Longrightarrow> c \<noteq> CHR ''.''"
    using assms(3) by auto
  then have "takeWhile (\<lambda>c. c \<noteq> CHR ''.'') (rev s @ CHR ''.'' # rev pre)
             = rev s @ takeWhile (\<lambda>c. c \<noteq> CHR ''.'') (CHR ''.'' # rev pre)"
    by (rule takeWhile_append2)
  then have tw: "takeWhile (\<lambda>c. c \<noteq> CHR ''.'') (rev f) = rev s"
    by (simp add: f)
  from pre have "filter (\<lambda>c. c \<noteq> CHR ''.'') pre \<noteq> []"
    by (cases pre) simp_all
  then show ?thesis
    by (simp add: extension_of_def tw Let_def) (simp add: f)
qed

lemma file_test_extension: "file_test f \<Longrightarrow> extension_of f \<in> set allowed_suffixes"
  by (auto simp: file_test_def allowed_suffixes_def dest: extension_of_suffix)

section \<open>Encoding\<close>

lemma of_char_less_256: "(of_char c :: nat) < 256"
proof -
  have "(of_char c :: nat) mod 256 = of_char c" by (rule of_char_mod_256)
  moreover have "(of_char c :: nat) mod 256 < 256" by simp
  ultimately show ?thesis by simp
qed

lemma encodable_simps:
  "encodable []"
  "encodable (c # s) \<longleftrightarrow> \<not> surrogate c \<and> encodable s"
  "encodable (a @ b) \<longleftrightarrow> encodable a \<and> encodable b"
  by (simp_all add: encodable_def)

lemma utf8_simps:
  "utf8 [] = []"
  "utf8 (c # s) = utf8_char c @ utf8 s"
  "utf8 (a @ b) = utf8 a @ utf8 b"
  by (simp_all add: utf8_def)

lemma encodable_code_points: "encodable (code_points s)"
proof (induction s)
  case Nil
  show ?case by (simp add: code_points_def encodable_def)
next
  case (Cons c s)
  have "(of_char c :: nat) < 256" by (rule of_char_less_256)
  then have "\<not> surrogate (of_char c)"
    unfolding surrogate_def by linarith
  with Cons show ?case by (simp add: code_points_def encodable_def)
qed

lemma utf8_code_points: "is_ascii s \<Longrightarrow> utf8 (code_points s) = s"
  by (induction s) (simp_all add: is_ascii_def utf8_def utf8_char_def code_points_def)

lemma pictographs:
  "utf8_char 0x1F4CB = clipboard" "utf8_char 0x1F4BB = laptop"
  "\<not> surrogate 0x1F4CB" "\<not> surrogate 0x1F4BB"
  by (simp_all add: utf8_char_def clipboard_def laptop_def surrogate_def char_of_eq_iff)

lemma ascii_literals:
  "is_ascii '' ''" "is_ascii '' Command: ''" "is_ascii ''Error running command: ''"
  by (simp_all add: is_ascii_def)

lemma py_print_encodable: "encodable s \<Longrightarrow> py_print s \<sigma> = Returned (print (utf8 s) \<sigma>)"
  by (simp add: py_print_def utf8_encode_def)

lemma py_print_unencodable: "\<not> encodable s \<Longrightarrow> py_print s \<sigma> = Raised (encode_error s) \<sigma>"
  by (simp add: py_print_def utf8_encode_def)

section \<open>The command runner\<close>

lemma heading_encodable:
  "encodable (0x1F4CB # code_points '' '' @ description) \<longleftrightarrow> encodable description"
  "encodable (0x1F4BB # code_points '' Command: '' @ cmd) \<longleftrightarrow> encodable cmd"
  "encodable (code_points ''Error running command: '' @ msg) \<longleftrightarrow> encodable msg"
  by (simp_all add: encodable_simps encodable_code_points pictographs)

lemma heading_utf8:
  "utf8 (0x1F4CB # code_points '' '' @ description) = clipboard @ '' '' @ utf8 description"
  "utf8 (0x1F4BB # code_points '' Command: '' @ cmd) = laptop @ '' Command: '' @ utf8 cmd"
  "utf8 (code_points ''Error running command: '' @ msg) = ''Error running command: '' @ utf8 msg"
  by (simp_all add: utf8_simps pictographs utf8_code_points ascii_literals)

lemma run_command_bad_description:
  "\<not> encodable description \<Longrightarrow>
   run_command e cmd description \<sigma> =
     Raised (encode_error (0x1F4CB # code_points '' '' @ description)) \<sigma>"
  by (simp add: run_command_def py_print_unencodable heading_encodable)

lemma run_command_bad_cmd:
  "encodable description \<Longrightarrow> \<not> encodable cmd \<Longrightarrow>
   run_command e cmd description \<sigma> =
     Raised (encode_error (0x1F4BB # code_points '' Command: '' @ cmd))
       (\<sigma>\<lparr>stdout := stdout \<sigma> @ [clipboard @ '' '' @ utf8 description]\<rparr>)"
  by (simp add: run_command_def py_print_unencodable py_print_encodable heading_encodable
      heading_utf8 print_eq)

lemma run_command_raise:
  "encodable description \<Longrightarrow> encodable cmd \<Longrightarrow>
   subprocess_run e cmd = Inl (Exception msg) \<Longrightarrow> encodable msg \<Longrightarrow>
   run_command e cmd description \<sigma> =
     Returned (\<sigma>\<lparr>stdout := stdout \<sigma> @ [clipboard @ '' '' @ utf8 description,
                   laptop @ '' Command: '' @ utf8 cmd, replicate 40 CHR ''-'',
                   ''Error running command: '' @ utf8 msg, []],
                 subprocess_calls := subprocess_calls \<sigma> @ [cmd]\<rparr>)"
  by (simp add: run_command_def run_command_try_def run_command_except_def py_print_encodable
      heading_encodable heading_utf8 print_eq Let_def)

lemma run_command_bad_message:
  "encodable description \<Longrightarrow> encodable cmd \<Longrightarrow>
   subprocess_run e cmd = Inl (Exception msg) \<Longrightarrow> \<not> encodable msg \<Longrightarrow>
   run_command e cmd description \<sigma> =
     Raised (encode_error (code_points ''Error running command: '' @ msg))
       (\<sigma>\<lparr>stdout := stdout \<sigma> @ [clipboard @ '' '' @ utf8 description,
                   laptop @ '' Command: '' @ utf8 cmd, replicate 40 CHR ''-''],
           subprocess_calls := subprocess_calls \<sigma> @ [cmd]\<rparr>)"
  by (simp add: run_command_def run_command_try_def run_command_except_def py_print_encodable
      py_print_unencodable heading_encodable heading_utf8 print_eq Let_def)

lemma run_command_complete:
  "encodable description \<Longrightarrow> encodable cmd \<Longrightarrow> subprocess_run e cmd = Inr result \<Longrightarrow>
   run_command e cmd description \<sigma> =
     Returned (\<sigma>\<lparr>stdout := stdout \<sigma> @ [clipboard @ '' '' @ utf8 description,
                   laptop @ '' Command: '' @ utf8 cmd, replicate 40 CHR ''-'']
                   @ (if proc_stdout result \<noteq> [] then [proc_stdout result] else [])
                   @ (if proc_stderr result \<noteq> [] then [''STDERR: '' @ proc_stderr result] else [])
                   @ [[]],
                 subprocess_calls := subprocess_calls \<sigma> @ [cmd]\<rparr>)"
  by (simp add: run_command_def run_command_try_def py_print_encodable heading_encodable
      heading_utf8 print_eq Let_def)

section \<open>Claims\<close>

text \<open>
  C1 (as amended). When \<^verbatim>\<open>Cargo.toml\<close> is absent, \<^const>\<open>main\<close> prints the four lines of
  the banner and then exactly one error line, and nothing else: the run does not depend
  on the working directory (nothing is traversed) and hands no command to a shell.
\<close>

theorem marker_absent_banner_then_error:
  assumes "\<not> path_exists e ''Cargo.toml''"
  shows "stdout (final (main e \<sigma>)) = stdout \<sigma> @ banner_lines @ [error_line]
         \<and> subprocess_calls (final (main e \<sigma>)) = subprocess_calls \<sigma>
         \<and> main (e\<lparr>cwd := d\<rparr>) \<sigma> = main e \<sigma>"
  using assms by (simp add: main_absent)

theorem marker_absent_banner_then_error_witness:
  "\<not> path_exists env_no_marker ''Cargo.toml''
   \<and> stdout (final (main env_no_marker empty_state))
       = [replicate 60 CHR ''='', rocket @ '' RUST + FOUNDRY POLLING SYSTEM DEMO'',
          replicate 60 CHR ''='', [], error_line]"
  using marker_absent_banner_then_error [of env_no_marker empty_state "Dir [] [] []"]
  by (simp add: env_no_marker_def empty_state_def banner_lines_def)

text \<open>
  C1 as stated fails: without the marker file the output is not the error line alone,
  the banner comes first and the run prints five lines.
\<close>

theorem marker_absent_not_only_error_line:
  "\<not> path_exists env_no_marker ''Cargo.toml''
   \<and> stdout (final (main env_no_marker empty_state)) \<noteq> [error_line]
   \<and> length (stdout (final (main env_no_marker empty_state))) = 5
   \<and> hd (stdout (final (main env_no_marker empty_state))) = replicate 60 CHR ''=''"
proof -
  have absent: "\<not> path_exists env_no_marker ''Cargo.toml''"
    by (simp add: env_no_marker_def)
  show ?thesis
    by (simp add: absent main_absent empty_state_def banner_lines_def)
qed

text \<open>
  C7. On both paths of \<^const>\<open>main\<close> the list of commands handed to \<^verbatim>\<open>subprocess.run\<close> is
  what it was before the call, and the run is the same whatever the shell would do:
  \<^const>\<open>run_command\<close> is not called and no subprocess is started.
\<close>

theorem main_spawns_nothing:
  "subprocess_calls (final (main e \<sigma>)) = subprocess_calls \<sigma>
   \<and> main (e\<lparr>subprocess_run := sh\<rparr>) \<sigma> = main e \<sigma>"
  by (cases "path_exists e ''Cargo.toml''") (simp_all add: main_absent main_present)

theorem main_spawns_nothing_witness:
  "subprocess_calls (final (main env_project empty_state)) = []
   \<and> main (env_project\<lparr>subprocess_run := (\<lambda>c. Inr \<lparr>returncode = 1, proc_stdout = [], proc_stderr = []\<rparr>)\<rparr>)
        empty_state = main env_project empty_state"
  using main_spawns_nothing [of env_project empty_state]
  by (simp add: empty_state_def)

text \<open>
  C10. The argument vector is never read: two runs that differ only in their arguments
  end in the same state, with the same output and the same exit status.
\<close>

theorem output_independent_of_argv:
  "main (e\<lparr>argv := args\<rparr>) \<sigma> = main e \<sigma> \<and> script (e\<lparr>argv := args\<rparr>) \<sigma> = script e \<sigma>"
  by (simp add: main_def script_def Let_def)

theorem output_independent_of_argv_witness:
  "main (env_project\<lparr>argv := [''scripts/demo.py'', ''--help'']\<rparr>) empty_state
     = main env_project empty_state
   \<and> script (env_project\<lparr>argv := [''scripts/demo.py'', ''--help'']\<rparr>) empty_state
     = script env_project empty_state"
  using output_independent_of_argv
      [where e = env_project and args = "[''scripts/demo.py'', ''--help'']" and \<sigma> = empty_state]
  by simp

text \<open>
  C2. With the marker file present the output of \<^const>\<open>main\<close> is the banner, the analysis
  heading, the lines of every directory the walk yields, a blank line and the fixed
  sections. For each directory the loop body prints the line of the directory and then
  at most three file lines; every file shown is an entry of that directory, does not
  begin with a dot, ends in one of \<^verbatim>\<open>.rs\<close>, \<^verbatim>\<open>.sol\<close>, \<^verbatim>\<open>.toml\<close>, \<^verbatim>\<open>.json\<close>, and has one of
  these as its extension.
\<close>

theorem listing_at_most_three_allowed_files:
  assumes "path_exists e ''Cargo.toml''"
  shows "stdout (final (main e \<sigma>))
           = stdout \<sigma> @ banner_lines @ analysis_lines
             @ concat (map dir_lines (os_walk ''.'' (cwd e))) @ [[]] @ static_lines
         \<and> (\<forall>(root, ds, fs) \<in> set (os_walk ''.'' (cwd e)).
              \<exists>shown.
                (\<forall>\<sigma>'. stdout (walk_body (root, ds, fs) \<sigma>')
                        = stdout \<sigma>' @ (spaces (2 * level_of root) @ basename root @ ''/'')
                          # map (\<lambda>f. spaces (2 * (level_of root + 1)) @ f) shown)
                \<and> length shown \<le> 3
                \<and> (\<forall>f \<in> set shown.
                      f \<in> set fs \<and> \<not> startswith f ''.''
                      \<and> endswith_any f [''.rs'', ''.sol'', ''.toml'', ''.json'']
                      \<and> extension_of f \<in> {''.rs'', ''.sol'', ''.toml'', ''.json''}))"
proof -
  have dirs: "\<exists>shown.
       (\<forall>\<sigma>'. stdout (walk_body (root, ds, fs) \<sigma>')
               = stdout \<sigma>' @ (spaces (2 * level_of root) @ basename root @ ''/'')
                 # map (\<lambda>f. spaces (2 * (level_of root + 1)) @ f) shown)
       \<and> length shown \<le> 3
       \<and> (\<forall>f \<in> set shown.
             f \<in> set fs \<and> \<not> startswith f ''.''
             \<and> endswith_any f [''.rs'', ''.sol'', ''.toml'', ''.json'']
             \<and> extension_of f \<in> {''.rs'', ''.sol'', ''.toml'', ''.json''})"
    for root ds fs
  proof (intro exI [of _ "shown_files fs"] conjI ballI allI)
    show "stdout (walk_body (root, ds, fs) \<sigma>')
            = stdout \<sigma>' @ (spaces (2 * level_of root) @ basename root @ ''/'')
              # map (\<lambda>f. spaces (2 * (level_of root + 1)) @ f) (shown_files fs)" for \<sigma>'
      by (simp add: walk_body_eq dir_lines_def)
    show "length (shown_files fs) \<le> 3" by (rule shown_files_length)
  next
    fix f assume f: "f \<in> set (shown_files fs)"
    show "f \<in> set fs" "\<not> startswith f ''.''"
      using shown_files_member [OF f] by simp_all
    show "endswith_any f [''.rs'', ''.sol'', ''.toml'', ''.json'']"
      using shown_files_member(3) [OF f] by (simp add: allowed_suffixes_def)
    have "file_test f" using f by (simp add: shown_files_def)
    from file_test_extension [OF this]
    show "extension_of f \<in> {''.rs'', ''.sol'', ''.toml'', ''.json''}"
      by (simp add: allowed_suffixes_def)
  qed
  from assms have "stdout (final (main e \<sigma>))
           = stdout \<sigma> @ banner_lines @ analysis_lines
             @ concat (map dir_lines (os_walk ''.'' (cwd e))) @ [[]] @ static_lines"
    by (simp add: main_present listing_lines_def)
  with dirs show ?thesis by blast
qed

theorem listing_at_most_three_allowed_files_witness:
  "path_exists env_project ''Cargo.toml''
   \<and> os_walk ''.'' (cwd env_project)
       = [(''.'', [''src'', ''.git''], [''Cargo.toml'', ''.gitignore'', ''README.md'', ''x.json'']),
          (''./src'', [], [''.env'', ''a.rs'', ''b.rs'', ''c.rs'', ''d.rs'']),
          (''./.git'', [''hooks''], [''config'']),
          (''./.git/hooks'', [], [])]
   \<and> (\<exists>shown.
        (\<forall>\<sigma>'. stdout (walk_body (''./src'', [], [''.env'', ''a.rs'', ''b.rs'', ''c.rs'', ''d.rs'']) \<sigma>')
                = stdout \<sigma>' @ (spaces (2 * level_of ''./src'') @ basename ''./src'' @ ''/'')
                  # map (\<lambda>f. spaces (2 * (level_of ''./src'' + 1)) @ f) shown)
        \<and> length shown \<le> 3
        \<and> (\<forall>f \<in> set shown. \<not> startswith f ''.''))"
proof -
  have marker: "path_exists env_project ''Cargo.toml''"
    by (simp add: env_project_def)
  have walk: "os_walk ''.'' (cwd env_project)
       = [(''.'', [''src'', ''.git''], [''Cargo.toml'', ''.gitignore'', ''README.md'', ''x.json'']),
          (''./src'', [], [''.env'', ''a.rs'', ''b.rs'', ''c.rs'', ''d.rs'']),
          (''./.git'', [''hooks''], [''config'']),
          (''./.git/hooks'', [], [])]"
    by (simp add: env_project_def path_join_def startswith_def endswith_def os_sep_def)
  from listing_at_most_three_allowed_files [OF marker, of empty_state]
  have "\<forall>(root, ds, fs) \<in> set (os_walk ''.'' (cwd env_project)).
              \<exists>shown.
                (\<forall>\<sigma>'. stdout (walk_body (root, ds, fs) \<sigma>')
                        = stdout \<sigma>' @ (spaces (2 * level_of root) @ basename root @ ''/'')
                          # map (\<lambda>f. spaces (2 * (level_of root + 1)) @ f) shown)
                \<and> length shown \<le> 3
                \<and> (\<forall>f \<in> set shown.
                      f \<in> set fs \<and> \<not> startswith f ''.''
                      \<and> endswith_any f [''.rs'', ''.sol'', ''.toml'', ''.json'']
                      \<and> extension_of f \<in> {''.rs'', ''.sol'', ''.toml'', ''.json''})"
    by (rule conjunct2)
  then have "\<exists>shown.
        (\<forall>\<sigma>'. stdout (walk_body (''./src'', [], [''.env'', ''a.rs'', ''b.rs'', ''c.rs'', ''d.rs'']) \<sigma>')
                = stdout \<sigma>' @ (spaces (2 * level_of ''./src'') @ basename ''./src'' @ ''/'')
                  # map (\<lambda>f. spaces (2 * (level_of ''./src'' + 1)) @ f) shown)
        \<and> length shown \<le> 3
        \<and> (\<forall>f \<in> set shown.
              f \<in> set [''.env'', ''a.rs'', ''b.rs'', ''c.rs'', ''d.rs''] \<and> \<not> startswith f ''.''
              \<and> endswith_any f [''.rs'', ''.sol'', ''.toml'', ''.json'']
              \<and> extension_of f \<in> {''.rs'', ''.sol'', ''.toml'', ''.json''})"
    unfolding walk by simp
  then have "\<exists>shown.
        (\<forall>\<sigma>'. stdout (walk_body (''./src'', [], [''.env'', ''a.rs'', ''b.rs'', ''c.rs'', ''d.rs'']) \<sigma>')
                = stdout \<sigma>' @ (spaces (2 * level_of ''./src'') @ basename ''./src'' @ ''/'')
                  # map (\<lambda>f. spaces (2 * (level_of ''./src'' + 1)) @ f) shown)
        \<and> length shown \<le> 3
        \<and> (\<forall>f \<in> set shown. \<not> startswith f ''.'')"
    by blast
  with marker walk show ?thesis by blast
qed



text \<open>
  C3 (as amended). For a description and a command that standard output can encode,
  \<^const>\<open>run_command\<close> catches every exception of class \<^verbatim>\<open>Exception\<close> that \<^verbatim>\<open>subprocess.run\<close>
  raises: the handler prints \<^verbatim>\<open>Error running command:\<close> with the message and a blank line
  after the three heading lines, and the call returns, provided the message can be encoded
  as well. When \<^verbatim>\<open>subprocess.run\<close> completes the call returns too. The call returns in
  these cases only: a description, a command or a message that cannot be encoded makes a
  print outside the \<^verbatim>\<open>try\<close> block raise, and that exception reaches the caller.
\<close>

theorem run_command_catches_subprocess_exceptions:
  assumes "encodable description" and "encodable cmd"
  shows "(\<forall>msg. subprocess_run e cmd = Inl (Exception msg) \<and> encodable msg \<longrightarrow>
            run_command e cmd description \<sigma> =
              Returned (\<sigma>\<lparr>stdout := stdout \<sigma> @ [clipboard @ '' '' @ utf8 description,
                            laptop @ '' Command: '' @ utf8 cmd, replicate 40 CHR ''-'',
                            ''Error running command: '' @ utf8 msg, []],
                          subprocess_calls := subprocess_calls \<sigma> @ [cmd]\<rparr>))
         \<and> (\<forall>result. subprocess_run e cmd = Inr result \<longrightarrow>
                (\<exists>\<sigma>'. run_command e cmd description \<sigma> = Returned \<sigma>'))
         \<and> ((\<exists>\<sigma>'. run_command e cmd' description' \<sigma> = Returned \<sigma>') \<longleftrightarrow>
                encodable description' \<and> encodable cmd'
                \<and> (\<forall>msg. subprocess_run e cmd' = Inl (Exception msg) \<longrightarrow> encodable msg))"
proof (intro conjI allI impI)
  fix msg assume "subprocess_run e cmd = Inl (Exception msg) \<and> encodable msg"
  with assms show "run_command e cmd description \<sigma> =
              Returned (\<sigma>\<lparr>stdout := stdout \<sigma> @ [clipboard @ '' '' @ utf8 description,
                            laptop @ '' Command: '' @ utf8 cmd, replicate 40 CHR ''-'',
                            ''Error running command: '' @ utf8 msg, []],
                          subprocess_calls := subprocess_calls \<sigma> @ [cmd]\<rparr>)"
    by (simp add: run_command_raise)
next
  fix result assume "subprocess_run e cmd = Inr result"
  with assms show "\<exists>\<sigma>'. run_command e cmd description \<sigma> = Returned \<sigma>'"
    by (simp add: run_command_complete)
next
  show "(\<exists>\<sigma>'. run_command e cmd' description' \<sigma> = Returned \<sigma>') \<longleftrightarrow>
          encodable description' \<and> encodable cmd'
          \<and> (\<forall>msg. subprocess_run e cmd' = Inl (Exception msg) \<longrightarrow> encodable msg)"
  proof (cases "encodable description'")
    case False
    then show ?thesis by (simp add: run_command_bad_description)
  next
    case d: True
    show ?thesis
    proof (cases "encodable cmd'")
      case False
      with d show ?thesis by (simp add: run_command_bad_cmd)
    next
      case c: True
      show ?thesis
      proof (cases "subprocess_run e cmd'")
        case (Inr result)
        with d c show ?thesis by (simp add: run_command_complete)
      next
        case (Inl x)
        obtain m where x: "x = Exception m" by (cases x)
        show ?thesis
        proof (cases "encodable m")
          case True
          with d c Inl x show ?thesis by (simp add: run_command_raise)
        next
          case False
          with d c Inl x show ?thesis by (simp add: run_command_bad_message)
        qed
      qed
    qed
  qed
qed

theorem run_command_catches_subprocess_exceptions_witness:
  "encodable (code_points ''Validate'') \<and> encodable (code_points ''cargo check'')
   \<and> subprocess_run env_project (code_points ''cargo check'') = Inl (Exception (code_points ''boom''))
   \<and> encodable (code_points ''boom'')
   \<and> run_command env_project (code_points ''cargo check'') (code_points ''Validate'') empty_state
       = Returned \<lparr>stdout = [clipboard @ '' Validate'', laptop @ '' Command: cargo check'',
                              replicate 40 CHR ''-'', ''Error running command: boom'', []],
                    subprocess_calls = [code_points ''cargo check'']\<rparr>"
proof -
  have h1: "encodable (code_points ''Validate'')" and h2: "encodable (code_points ''cargo check'')"
    and h4: "encodable (code_points ''boom'')"
    by (rule encodable_code_points)+
  have h3: "subprocess_run env_project (code_points ''cargo check'')
            = Inl (Exception (code_points ''boom''))"
    by (simp add: env_project_def failing_shell_def)
  have u: "utf8 (code_points ''Validate'') = ''Validate''"
    "utf8 (code_points ''cargo check'') = ''cargo check''"
    "utf8 (code_points ''boom'') = ''boom''"
    by (simp_all add: utf8_code_points is_ascii_def)
  from run_command_catches_subprocess_exceptions [OF h1 h2, of env_project empty_state] h3 h4
  have "run_command env_project (code_points ''cargo check'') (code_points ''Validate'') empty_state
       = Returned \<lparr>stdout = [clipboard @ '' Validate'', laptop @ '' Command: cargo check'',
                              replicate 40 CHR ''-'', ''Error running command: boom'', []],
                    subprocess_calls = [code_points ''cargo check'']\<rparr>"
    by (simp add: u empty_state_def)
  with h1 h2 h3 h4 show ?thesis by blast
qed

text \<open>
  C3 as stated fails: with a description that is a lone surrogate the first print of
  \<^const>\<open>run_command\<close>, which stands before the \<^verbatim>\<open>try\<close> block, raises
  \<^verbatim>\<open>UnicodeEncodeError\<close>, and the call raises it to its caller without printing
  anything and without running the command.
\<close>

theorem run_command_raises_on_unencodable_description:
  "lone_surrogate = [0xDC80]
   \<and> run_command env_project (code_points ''cargo check'') lone_surrogate empty_state
     = Raised (Exception (code_points
         ([squote] @ ''utf-8'' @ [squote] @ '' codec can'' @ [squote] @ ''t encode character ''
          @ [squote, CHR 0x5C] @ ''udc80'' @ [squote] @ '' in position 2: surrogates not allowed'')))
       empty_state"
proof -
  have bad: "\<not> encodable lone_surrogate"
    by (simp add: encodable_def lone_surrogate_def surrogate_def)
  have "encode_error (0x1F4CB # code_points '' '' @ lone_surrogate)
        = Exception (code_points
         ([squote] @ ''utf-8'' @ [squote] @ '' codec can'' @ [squote] @ ''t encode character ''
          @ [squote, CHR 0x5C] @ ''udc80'' @ [squote] @ '' in position 2: surrogates not allowed''))"
    by (simp add: encode_error_def lone_surrogate_def surrogate_def code_points_def hex4_def
        decimal.simps Let_def)
  with bad have "run_command env_project (code_points ''cargo check'') lone_surrogate empty_state
     = Raised (Exception (code_points
         ([squote] @ ''utf-8'' @ [squote] @ '' codec can'' @ [squote] @ ''t encode character ''
          @ [squote, CHR 0x5C] @ ''udc80'' @ [squote] @ '' in position 2: surrogates not allowed'')))
       empty_state"
    by (simp add: run_command_bad_description)
  then show ?thesis by (simp add: lone_surrogate_def)
qed

text \<open>
  C4. The script leaves with status 0 on every run: \<^const>\<open>main\<close> returns on both paths
  and never raises. Without the marker file the run returns after the error line, with
  status 0. The status and the output of the script do not depend on what any command
  would do in a shell, and \<^const>\<open>run_command\<close> itself gives the same result whatever
  return code the child process reports.
\<close>

theorem script_exit_status_zero:
  "fst (script e \<sigma>) = 0
   \<and> (\<exists>\<sigma>'. main e \<sigma> = Returned \<sigma>')
   \<and> (\<not> path_exists e ''Cargo.toml'' \<longrightarrow>
        script e \<sigma> = (0, \<sigma>\<lparr>stdout := stdout \<sigma> @ banner_lines @ [error_line]\<rparr>))
   \<and> script (e\<lparr>subprocess_run := sh\<rparr>) \<sigma> = script e \<sigma>
   \<and> run_command (e\<lparr>subprocess_run := (\<lambda>c. map_sum id (\<lambda>p. p\<lparr>returncode := code\<rparr>) (subprocess_run e c))\<rparr>)
        cmd description \<sigma>
      = run_command e cmd description \<sigma>"
proof (intro conjI impI)
  from main_returns [of e \<sigma>] obtain \<sigma>' where r: "main e \<sigma> = Returned \<sigma>'" ..
  then show "fst (script e \<sigma>) = 0" by (simp add: script_def)
  from r show "\<exists>\<sigma>'. main e \<sigma> = Returned \<sigma>'" ..
  show "script (e\<lparr>subprocess_run := sh\<rparr>) \<sigma> = script e \<sigma>"
    by (simp add: script_def main_def Let_def)
next
  assume "\<not> path_exists e ''Cargo.toml''"
  then show "script e \<sigma> = (0, \<sigma>\<lparr>stdout := stdout \<sigma> @ banner_lines @ [error_line]\<rparr>)"
    by (simp add: script_def main_absent)
next
  show "run_command (e\<lparr>subprocess_run := (\<lambda>c. map_sum id (\<lambda>p. p\<lparr>returncode := code\<rparr>) (subprocess_run e c))\<rparr>)
        cmd description \<sigma>
      = run_command e cmd description \<sigma>"
  proof (cases "encodable description")
    case False
    then show ?thesis by (simp add: run_command_bad_description)
  next
    case d: True
    show ?thesis
    proof (cases "encodable cmd")
      case False
      with d show ?thesis by (simp add: run_command_bad_cmd)
    next
      case c: True
      show ?thesis
      proof (cases "subprocess_run e cmd")
        case (Inr result)
        with d c show ?thesis by (simp add: run_command_complete)
      next
        case (Inl x)
        obtain m where x: "x = Exception m" by (cases x)
        show ?thesis
        proof (cases "encodable m")
          case True
          with d c Inl x show ?thesis by (simp add: run_command_raise)
        next
          case False
          with d c Inl x show ?thesis by (simp add: run_command_bad_message)
        qed
      qed
    qed
  qed
qed

theorem script_exit_status_zero_witness:
  "\<not> path_exists env_no_marker ''Cargo.toml''
   \<and> fst (script env_no_marker empty_state) = 0
   \<and> script env_no_marker empty_state
       = (0, \<lparr>stdout = banner_lines @ [error_line], subprocess_calls = []\<rparr>)"
  using script_exit_status_zero [of env_no_marker empty_state]
  by (simp add: env_no_marker_def empty_state_def)




text \<open>
  C6. The five lists are constants, and the sections printed from them are the fixed
  list \<^const>\<open>static_lines\<close> of 71 lines: \<^const>\<open>main_static\<close> appends exactly these lines to any
  state. With the marker file present every run ends with them, whatever the working
  directory, the arguments and the shell are, and two runs from the same directory
  contents and the same earlier output write the same bytes.
\<close>

theorem static_sections_deterministic:
  assumes "path_exists e1 ''Cargo.toml''" and "path_exists e2 ''Cargo.toml''"
  shows "stdout (final (main e1 \<sigma>1))
           = stdout \<sigma>1 @ banner_lines @ analysis_lines @ listing_lines (cwd e1) @ [[]] @ static_lines
         \<and> stdout (final (main e2 \<sigma>2))
           = stdout \<sigma>2 @ banner_lines @ analysis_lines @ listing_lines (cwd e2) @ [[]] @ static_lines
         \<and> stdout (main_static \<sigma>1) = stdout \<sigma>1 @ static_lines
         \<and> length static_lines = 71
         \<and> (cwd e1 = cwd e2 \<and> stdout \<sigma>1 = stdout \<sigma>2 \<longrightarrow>
              stdout_bytes (final (main e1 \<sigma>1)) = stdout_bytes (final (main e2 \<sigma>2)))"
proof -
  have "length static_lines = 71"
    by (simp add: static_lines_def commands_def features_def example_commands_def workflow_def
        next_phases_def enumerate1_def)
  with assms show ?thesis
    by (simp add: main_present main_static_eq stdout_bytes_def)
qed

theorem static_sections_deterministic_witness:
  "path_exists env_project ''Cargo.toml'' \<and> path_exists env_four_rs ''Cargo.toml''
   \<and> cwd env_project \<noteq> cwd env_four_rs
   \<and> drop (length (stdout (final (main env_project empty_state))) - 71)
          (stdout (final (main env_project empty_state)))
       = static_lines
   \<and> drop (length (stdout (final (main env_four_rs empty_state))) - 71)
          (stdout (final (main env_four_rs empty_state)))
       = static_lines"
proof -
  have h1: "path_exists env_project ''Cargo.toml''"
    by (simp add: env_project_def)
  have h2: "path_exists env_four_rs ''Cargo.toml''"
    by (simp add: env_four_rs_def)
  have ne: "cwd env_project \<noteq> cwd env_four_rs"
    by (simp add: env_project_def env_four_rs_def)
  from static_sections_deterministic [OF h1 h2, of empty_state empty_state]
  have "drop (length (stdout (final (main env_project empty_state))) - 71)
          (stdout (final (main env_project empty_state))) = static_lines"
    and "drop (length (stdout (final (main env_four_rs empty_state))) - 71)
          (stdout (final (main env_four_rs empty_state))) = static_lines"
    by simp_all
  with h1 h2 ne show ?thesis by blast
qed



end
